theory Spec2Isabelle
  imports Main
begin

section \<open>The pipeline command line of dagster: data\<close>

text \<open>
  The module \<^verbatim>\<open>dagster/cli/pipeline.py\<close> reads pipeline definitions and execution results
  that the rest of dagster builds. Only the attributes the module reads are modelled.
  An attribute that is read in several classes under one name gets the class as a prefix:
  \<^verbatim>\<open>source_def.argument_def_dict\<close> is \<open>source_argument_def_dict\<close>,
  \<^verbatim>\<open>solid.name\<close> is \<open>solid_name\<close>, and so on.

  An argument dictionary is read through \<^verbatim>\<open>items()\<close> only, in insertion order, and of
  each argument only \<^verbatim>\<open>arg_def.dagster_type.name\<close> is read: it is the list of the
  pairs (argument name, name of the argument's type) in insertion order.
\<close>

type_synonym arg_def_dict = "(string \<times> string) list"

record source_def =
  source_type :: string
  source_argument_def_dict :: arg_def_dict

record materialization_def =
  materialization_name :: string
  materialization_argument_def_dict :: arg_def_dict

text \<open>
  \<^verbatim>\<open>input_def.depends_on\<close> is a solid or \<^verbatim>\<open>None\<close>; the module tests it for truth and
  reads its \<^verbatim>\<open>name\<close>, so the field holds the name of the upstream solid, if any.
\<close>

record input_def =
  input_name :: string
  depends_on :: "string option"
  sources :: "source_def list"

text \<open>\<^verbatim>\<open>solid.output.materializations\<close> is the field \<open>output_materializations\<close>.\<close>

record solid_def =
  solid_name :: string
  inputs :: "input_def list"
  output_materializations :: "materialization_def list"

text \<open>
  A pipeline has two sequences of solids: \<^verbatim>\<open>pipeline.solids\<close>, which
  \<^verbatim>\<open>print_pipeline\<close> walks, and \<^verbatim>\<open>pipeline.solid_graph.topological_solids\<close>, which
  \<^verbatim>\<open>list_command\<close> walks. The class that relates them is not part of the module, so
  both are fields. The description is a string or \<^verbatim>\<open>None\<close>.
\<close>

record pipeline_def =
  pipeline_name :: string
  description :: "string option"
  solids :: "solid_def list"
  topological_solids :: "solid_def list"

section \<open>Strings\<close>

text \<open>\<^verbatim>\<open>sep.join(xs)\<close> of Python.\<close>

fun join :: "string \<Rightarrow> string list \<Rightarrow> string" where
  "join sep [] = []"
| "join sep [x] = x"
| "join sep (x # y # ys) = x @ sep @ join sep (y # ys)"

text \<open>
  \<^verbatim>\<open>'{desc}'.format(desc=d)\<close> for a value that is a string or \<^verbatim>\<open>None\<close>: the string
  itself, or the text \<^verbatim>\<open>None\<close>.
\<close>

fun format_opt :: "string option \<Rightarrow> string" where
  "format_opt None = ''None''"
| "format_opt (Some s) = s"

text \<open>\<^verbatim>\<open>indent = '    '\<close> and \<^verbatim>\<open>indent * n\<close>.\<close>

definition indent :: string where
  "indent = ''    ''"

definition str_times :: "string \<Rightarrow> nat \<Rightarrow> string" where
  "str_times s n = concat (replicate n s)"

section \<open>The topology printer\<close>

text \<open>
  \<^verbatim>\<open>printer\<close> is called with one string at a time. A printing function takes the
  sequence of the strings printed so far and returns it with its own calls added, in call
  order. \<^verbatim>\<open>click.echo\<close> is modelled the same way.
\<close>

definition format_argument_dict :: "arg_def_dict \<Rightarrow> string" where
  "format_argument_dict arg_def_dict =
     join '', '' (map (\<lambda>(name, type). name @ '': '' @ type) arg_def_dict)"

text \<open>The loop over \<^verbatim>\<open>input_def.sources\<close>.\<close>

fun print_sources :: "source_def list \<Rightarrow> string list \<Rightarrow> string list" where
  "print_sources [] out = out"
| "print_sources (source_def # rest) out =
     (let arg_list = format_argument_dict (source_argument_def_dict source_def)
      in print_sources rest
           (out @ [str_times indent 5 @ source_type source_def @ ''('' @ arg_list @ '')'']))"

text \<open>The body of the loop over \<^verbatim>\<open>solid.inputs\<close>.\<close>

definition print_input :: "input_def \<Rightarrow> string list \<Rightarrow> string list" where
  "print_input input_def out =
     (let out1 =
        (case depends_on input_def of
           Some dep_name \<Rightarrow>
             out @ [str_times indent 3 @ ''Name: '' @ input_name input_def
                    @ '' (depends on '' @ dep_name @ '')'']
         | None \<Rightarrow> out @ [str_times indent 3 @ ''Name: '' @ input_name input_def])
      in if sources input_def \<noteq> []
         then print_sources (sources input_def) (out1 @ [str_times indent 4 @ ''Sources:''])
         else out1)"

fun print_inputs :: "input_def list \<Rightarrow> string list \<Rightarrow> string list" where
  "print_inputs [] out = out"
| "print_inputs (input_def # rest) out = print_inputs rest (print_input input_def out)"

text \<open>The loop over \<^verbatim>\<open>solid.output.materializations\<close>.\<close>

fun print_materializations :: "materialization_def list \<Rightarrow> string list \<Rightarrow> string list" where
  "print_materializations [] out = out"
| "print_materializations (materialization_def # rest) out =
     (let arg_list = format_argument_dict (materialization_argument_def_dict materialization_def)
      in print_materializations rest
           (out @ [str_times indent 4 @ materialization_name materialization_def
                   @ ''('' @ arg_list @ '')'']))"

text \<open>The body of the loop over \<^verbatim>\<open>pipeline.solids\<close>.\<close>

definition print_solid :: "solid_def \<Rightarrow> string list \<Rightarrow> string list" where
  "print_solid solid out =
     (let out1 = out @ [indent @ ''Solid: '' @ solid_name solid];
          out2 = out1 @ [str_times indent 2 @ ''Inputs:''];
          out3 = print_inputs (inputs solid) out2;
          out4 = out3 @ [str_times indent 2 @ ''Output:''];
          out5 = out4 @ [str_times indent 3 @ ''Materializations:'']
      in print_materializations (output_materializations solid) out5)"

fun print_solids :: "solid_def list \<Rightarrow> string list \<Rightarrow> string list" where
  "print_solids [] out = out"
| "print_solids (solid # rest) out = print_solids rest (print_solid solid out)"

definition print_pipeline :: "pipeline_def \<Rightarrow> bool \<Rightarrow> string list \<Rightarrow> string list" where
  "print_pipeline pipeline full out =
     (let out1 = out @ [''Pipeline: '' @ pipeline_name pipeline
                        @ '' Description: '' @ format_opt (description pipeline)]
      in if \<not> full then out1 else print_solids (solids pipeline) out1)"

section \<open>The list command\<close>

text \<open>
  \<^verbatim>\<open>format_description\<close> calls \<^verbatim>\<open>textwrap.dedent\<close> and the \<^verbatim>\<open>fill\<close> method of a
  \<^verbatim>\<open>textwrap.TextWrapper\<close> built with an initial and a subsequent indent. Both belong to
  Python's standard library; they are parameters here, \<open>wrapper_fill\<close> taking the two
  indents and the text.
\<close>

record textwrap =
  dedent :: "string \<Rightarrow> string"
  wrapper_fill :: "string \<Rightarrow> string \<Rightarrow> string \<Rightarrow> string"

definition format_description :: "textwrap \<Rightarrow> string \<Rightarrow> string" where
  "format_description tw desc =
     (let dedented = dedent tw desc;
          indent4 = str_times '' '' 4
      in wrapper_fill tw indent4 indent4 dedented)"

text \<open>The loop over \<^verbatim>\<open>topological_solids\<close> in \<^verbatim>\<open>list_command\<close>.\<close>

fun echo_solids :: "solid_def list \<Rightarrow> string list \<Rightarrow> string list" where
  "echo_solids [] out = out"
| "echo_solids (solid # rest) out = echo_solids rest (out @ [''    '' @ solid_name solid])"

text \<open>
  The body of the loop over the pipelines in \<^verbatim>\<open>list_command\<close>. The test
  \<^verbatim>\<open>if pipeline.description\<close> holds for a string that is not empty, and fails for the
  empty string and for \<^verbatim>\<open>None\<close>.
\<close>

definition list_pipeline :: "textwrap \<Rightarrow> pipeline_def \<Rightarrow> string list \<Rightarrow> string list" where
  "list_pipeline tw pipeline out =
     (let out1 = out @ [''Pipeline: '' @ pipeline_name pipeline];
          out2 = (case description pipeline of
                    Some desc \<Rightarrow>
                      if desc \<noteq> []
                      then out1 @ [''Description:''] @ [format_description tw desc]
                      else out1
                  | None \<Rightarrow> out1);
          out3 = out2 @ [''Solids: (Execution Order)''];
          out4 = echo_solids (topological_solids pipeline) out3
      in out4 @ [''*************''])"

fun list_command :: "textwrap \<Rightarrow> pipeline_def list \<Rightarrow> string list \<Rightarrow> string list" where
  "list_command tw [] out = out"
| "list_command tw (pipeline # rest) out = list_command tw rest (list_pipeline tw pipeline out)"

section \<open>Execution results and metrics\<close>

text \<open>
  Of a metric the module reads \<^verbatim>\<open>metric_name\<close> and \<^verbatim>\<open>value\<close>, and prints the value
  through \<^verbatim>\<open>format\<close>: \<open>metric_value\<close> is the text \<^verbatim>\<open>format\<close> gives for it. The context
  tags are those of the specification's metric record.
\<close>

record metric =
  metric_name :: string
  metric_value :: string
  context_tags :: "(string \<times> string) list"

text \<open>
  A query dictionary such as \<^verbatim>\<open>{'solid': result.name, 'input': input_def.name}\<close> is the
  list of its items. Of \<^verbatim>\<open>result.context\<close> the module calls
  \<^verbatim>\<open>metrics_matching_context\<close>, \<^verbatim>\<open>metrics_covering_context\<close> and \<^verbatim>\<open>error\<close>. The
  two queries are fields: the class of the context is not part of the module. The calls of
  \<^verbatim>\<open>error\<close> are collected in the log of the run, below.
\<close>

type_synonym query = "(string \<times> string) list"

record context_def =
  metrics_matching_context :: "query \<Rightarrow> metric list"
  metrics_covering_context :: "query \<Rightarrow> metric list"

text \<open>
  \<^verbatim>\<open>DagsterExecutionFailureReason\<close> is imported; the module names two of its members and
  compares \<^verbatim>\<open>result.reason\<close> with them. \<open>OTHER_REASON\<close> stands for every value of
  \<^verbatim>\<open>result.reason\<close> that equals neither.
\<close>

datatype failure_reason = USER_CODE_ERROR | EXPECTATION_FAILURE | OTHER_REASON

record expectation_result =
  message :: string

text \<open>
  An execution result; \<open>'e\<close> is the type of user exceptions. \<^verbatim>\<open>result.name\<close> and
  \<^verbatim>\<open>result.solid.name\<close> are read separately by the module, so both are there.
\<close>

record 'e result =
  result_name :: string
  success :: bool
  reason :: failure_reason
  user_exception :: 'e
  failed_expectation_results :: "expectation_result list"
  result_context :: context_def
  solid :: solid_def

section \<open>The metrics reporter\<close>

text \<open>
  The two loops over metrics in \<^verbatim>\<open>print_metrics_to_console\<close> have the same body up to
  the indent, which is the first argument here.
\<close>

fun print_metric_list :: "string \<Rightarrow> metric list \<Rightarrow> string list \<Rightarrow> string list" where
  "print_metric_list ind [] out = out"
| "print_metric_list ind (metric # rest) out =
     print_metric_list ind rest (out @ [ind @ metric_name metric @ '': '' @ metric_value metric])"

text \<open>The body of the loop over \<^verbatim>\<open>result.solid.inputs\<close>.\<close>

definition print_input_metrics :: "'e result \<Rightarrow> input_def \<Rightarrow> string list \<Rightarrow> string list" where
  "print_input_metrics result input_def out =
     (let metrics_for_input =
            metrics_covering_context (result_context result)
              [(''solid'', result_name result), (''input'', input_name input_def)]
      in if metrics_for_input \<noteq> []
         then print_metric_list (str_times '' '' 8) metrics_for_input
                (out @ [''    Input '' @ input_name input_def])
         else out)"

fun print_inputs_metrics :: "'e result \<Rightarrow> input_def list \<Rightarrow> string list \<Rightarrow> string list" where
  "print_inputs_metrics result [] out = out"
| "print_inputs_metrics result (input_def # rest) out =
     print_inputs_metrics result rest (print_input_metrics result input_def out)"

text \<open>The body of the loop over the results.\<close>

definition print_result_metrics :: "'e result \<Rightarrow> string list \<Rightarrow> string list" where
  "print_result_metrics result out =
     (let metrics_of_solid =
            metrics_matching_context (result_context result) [(''solid'', result_name result)];
          out1 = out @ [''Metrics for '' @ result_name result];
          out2 = print_inputs_metrics result (inputs (solid result)) out1
      in print_metric_list (str_times '' '' 4) metrics_of_solid out2)"

fun print_metrics_to_console :: "'e result list \<Rightarrow> string list \<Rightarrow> string list" where
  "print_metrics_to_console [] out = out"
| "print_metrics_to_console (result # rest) out =
     print_metrics_to_console rest (print_result_metrics result out)"

subsection \<open>A context over a metric store\<close>

text \<open>
  Modelled from the spec: the context class and its two queries are not part of the module.
  The specification's matcher has two predicates over a metric's tags and a query:
  the tags match the query when the two are equal as mappings, and cover it when every
  key/value pair of the query is among the tags. A store is the sequence of its metric
  records, and a query returns the records it selects in store order.
\<close>

definition matches :: "(string \<times> string) list \<Rightarrow> query \<Rightarrow> bool" where
  "matches tags q = (set tags = set q)"

definition covers :: "(string \<times> string) list \<Rightarrow> query \<Rightarrow> bool" where
  "covers tags q = (set q \<subseteq> set tags)"

definition store_context :: "metric list \<Rightarrow> context_def" where
  "store_context store =
     \<lparr>metrics_matching_context = (\<lambda>q. filter (\<lambda>m. matches (context_tags m) q) store),
      metrics_covering_context = (\<lambda>q. filter (\<lambda>m. covers (context_tags m) q) store)\<rparr>"

section \<open>The result stream consumer\<close>

text \<open>
  How a call ends: it returns, it raises the user's exception, or it leaves through
  \<^verbatim>\<open>click_context.exit(code)\<close>, which ends the command with the exit code and does not
  return to its caller. The module runs under a click command, so
  \<^verbatim>\<open>click.get_current_context()\<close> finds the current context.
\<close>

datatype 'e outcome = Returned | Raised 'e | Exited int

text \<open>
  A call of \<^verbatim>\<open>result.context.error(message, solid=name)\<close> is the pair of its arguments;
  the log holds the calls in call order.
\<close>

type_synonym log = "(string \<times> string) list"

fun log_errors :: "expectation_result list \<Rightarrow> string \<Rightarrow> log \<Rightarrow> log" where
  "log_errors [] solid_nm lg = lg"
| "log_errors (expectation_result # rest) solid_nm lg =
     log_errors rest solid_nm (lg @ [(message expectation_result, solid_nm)])"

text \<open>
  The loop of \<^verbatim>\<open>process_results_for_console\<close> over the results the iterator yields,
  a finite sequence. Its state is the list \<^verbatim>\<open>results\<close> and the log; it ends with the
  outcome and the state reached.
\<close>

fun consume :: "'e result list \<Rightarrow> 'e result list \<Rightarrow> log
                  \<Rightarrow> 'e outcome \<times> 'e result list \<times> log" where
  "consume [] results lg = (Returned, results, lg)"
| "consume (result # rest) results lg =
     (if \<not> success result then
        (case reason result of
           USER_CODE_ERROR \<Rightarrow> (Raised (user_exception result), results, lg)
         | EXPECTATION_FAILURE \<Rightarrow>
             (Exited 1, results,
              log_errors (failed_expectation_results result) (solid_name (solid result)) lg)
         | OTHER_REASON \<Rightarrow> consume rest (results @ [result]) lg)
      else consume rest (results @ [result]) lg)"

text \<open>
  What a call of \<^verbatim>\<open>process_results_for_console\<close> leaves behind: how it ended, the list
  \<^verbatim>\<open>results\<close> at that moment, the log, and the strings printed.
\<close>

record 'e run =
  outcome :: "'e outcome"
  accumulated :: "'e result list"
  logged :: log
  printed :: "string list"

definition process_results_for_console :: "'e result list \<Rightarrow> string list \<Rightarrow> 'e run" where
  "process_results_for_console pipeline_iter out =
     (case consume pipeline_iter [] [] of
        (Returned, results, lg) \<Rightarrow>
          \<lparr>outcome = Returned, accumulated = results, logged = lg,
           printed = print_metrics_to_console results out\<rparr>
      | (oc, results, lg) \<Rightarrow>
          \<lparr>outcome = oc, accumulated = results, logged = lg, printed = out\<rparr>)"

section \<open>Reading the printed lines\<close>

text \<open>
  The line that opens the block of a solid in the output of \<^verbatim>\<open>print_pipeline\<close> is the
  only kind of line that starts with four spaces and \<^verbatim>\<open>Solid: \<close>.
\<close>

definition is_solid_line :: "string \<Rightarrow> bool" where
  "is_solid_line l = (take 11 l = ''    Solid: '')"

section \<open>The loops of the topology printer in closed form\<close>

lemma indent_times:
  "indent = ''    ''"
  "str_times ''    '' 2 = ''        ''"
  "str_times ''    '' 3 = ''            ''"
  "str_times ''    '' 4 = ''                ''"
  "str_times ''    '' 5 = ''                    ''"
  "str_times '' '' 4 = ''    ''"
  "str_times '' '' 8 = ''        ''"
  by (simp_all add: str_times_def indent_def eval_nat_numeral)

lemma print_sources_eq:
  "print_sources ss out =
     out @ map (\<lambda>s. str_times indent 5 @ source_type s @ ''(''
                     @ format_argument_dict (source_argument_def_dict s) @ '')'') ss"
  by (induction ss arbitrary: out) simp_all

lemma print_materializations_eq:
  "print_materializations ms out =
     out @ map (\<lambda>m. str_times indent 4 @ materialization_name m @ ''(''
                     @ format_argument_dict (materialization_argument_def_dict m) @ '')'') ms"
  by (induction ms arbitrary: out) simp_all

lemma print_input_append: "print_input i out = out @ print_input i []"
  by (simp add: print_input_def Let_def print_sources_eq split: option.splits)

lemma print_inputs_eq: "print_inputs is out = out @ concat (map (\<lambda>i. print_input i []) is)"
proof (induction "is" arbitrary: out)
  case Nil
  show ?case by simp
next
  case (Cons i "is")
  show ?case
    using Cons.IH [of "print_input i out"] print_input_append [of i out] by simp
qed

lemma print_solid_eq:
  "print_solid s out =
     out @ [''    Solid: '' @ solid_name s, ''        Inputs:'']
         @ print_inputs (inputs s) []
         @ [''        Output:'', ''            Materializations:'']
         @ print_materializations (output_materializations s) []"
  using print_inputs_eq [of "inputs s" "out @ [''    Solid: '' @ solid_name s, ''        Inputs:'']"]
        print_inputs_eq [of "inputs s" "[]"]
        print_materializations_eq [of "output_materializations s" "[]"]
  by (simp add: print_solid_def Let_def indent_times print_materializations_eq)

lemma print_solids_eq: "print_solids ss out = out @ concat (map (\<lambda>s. print_solid s []) ss)"
proof (induction ss arbitrary: out)
  case Nil
  show ?case by simp
next
  case (Cons s ss)
  show ?case
    using Cons.IH [of "print_solid s out"] print_solid_eq [of s out] print_solid_eq [of s "[]"]
    by simp
qed

subsection \<open>Which lines open a solid\<close>

lemma filter_print_input: "filter is_solid_line (print_input i []) = []"
  by (simp add: print_input_def Let_def print_sources_eq indent_times is_solid_line_def
      split: option.splits)

lemma filter_print_inputs: "filter is_solid_line (print_inputs is []) = []"
  by (simp add: print_inputs_eq filter_concat filter_print_input comp_def)

lemma filter_print_materializations: "filter is_solid_line (print_materializations ms []) = []"
  by (simp add: print_materializations_eq indent_times is_solid_line_def)

lemma filter_print_solid:
  "filter is_solid_line (print_solid s []) = [''    Solid: '' @ solid_name s]"
  using print_solid_eq [of s "[]"] filter_print_inputs [of "inputs s"]
    filter_print_materializations [of "output_materializations s"]
  by (simp add: is_solid_line_def)

lemma filter_solid_blocks:
  "filter is_solid_line (concat (map (\<lambda>s. print_solid s []) ss)) =
     map (\<lambda>s. ''    Solid: '' @ solid_name s) ss"
  by (induction ss) (simp_all add: filter_print_solid)

section \<open>The topology printer: solids\<close>

text \<open>
  Claim C8. With \<^verbatim>\<open>full=True\<close>, \<^verbatim>\<open>print_pipeline\<close> prints the header line and then
  one block per element of \<^verbatim>\<open>pipeline.solids\<close>, in the order of that sequence; the
  lines that open a solid are exactly those of \<^verbatim>\<open>pipeline.solids\<close> in the given order,
  none added, dropped, repeated or moved.
\<close>

theorem print_pipeline_solid_order:
  "print_pipeline p True out =
     out @ [''Pipeline: '' @ pipeline_name p @ '' Description: '' @ format_opt (description p)]
         @ concat (map (\<lambda>s. print_solid s []) (solids p))
   \<and> filter is_solid_line (print_pipeline p True []) =
       map (\<lambda>s. ''    Solid: '' @ solid_name s) (solids p)"
  by (simp add: print_pipeline_def Let_def print_solids_eq filter_solid_blocks is_solid_line_def)

theorem print_pipeline_solid_order_witness:
  "filter is_solid_line
     (print_pipeline
        \<lparr>pipeline_name = ''P'', description = Some ''d'',
         solids = [\<lparr>solid_name = ''B'',
                    inputs = [\<lparr>input_name = ''out'', depends_on = Some ''A'', sources = []\<rparr>],
                    output_materializations = []\<rparr>,
                   \<lparr>solid_name = ''A'', inputs = [], output_materializations = []\<rparr>],
         topological_solids = []\<rparr> True [])
   = [''    Solid: B'', ''    Solid: A'']"
  using print_pipeline_solid_order
    [of "\<lparr>pipeline_name = ''P'', description = Some ''d'',
         solids = [\<lparr>solid_name = ''B'',
                    inputs = [\<lparr>input_name = ''out'', depends_on = Some ''A'', sources = []\<rparr>],
                    output_materializations = []\<rparr>,
                   \<lparr>solid_name = ''A'', inputs = [], output_materializations = []\<rparr>],
         topological_solids = []\<rparr>" "[]", THEN conjunct2]
  by simp

text \<open>
  Claim C10. The block of a solid always holds the lines \<^verbatim>\<open>Inputs:\<close>, \<^verbatim>\<open>Output:\<close> and
  \<^verbatim>\<open>Materializations:\<close>, around the lines of its inputs and of its materializations;
  a solid with no input and no materialization prints its name and these three lines.
\<close>

theorem print_solid_sections:
  "print_solid s out =
     out @ [''    Solid: '' @ solid_name s, ''        Inputs:'']
         @ print_inputs (inputs s) []
         @ [''        Output:'', ''            Materializations:'']
         @ print_materializations (output_materializations s) []
   \<and> (inputs s = [] \<and> output_materializations s = [] \<longrightarrow>
        print_solid s out =
          out @ [''    Solid: '' @ solid_name s, ''        Inputs:'',
                 ''        Output:'', ''            Materializations:''])"
  using print_solid_eq [of s out] by simp

theorem print_solid_sections_witness:
  "print_solid \<lparr>solid_name = ''A'', inputs = [], output_materializations = []\<rparr> [] =
     [''    Solid: A'', ''        Inputs:'', ''        Output:'', ''            Materializations:'']"
  using print_solid_sections
    [of "\<lparr>solid_name = ''A'', inputs = [], output_materializations = []\<rparr>" "[]"]
  by simp

section \<open>The topology printer: inputs and their sources\<close>

text \<open>
  Claim C6, as stated, fails: the test \<^verbatim>\<open>if input_def.sources\<close> is not under the
  \<^verbatim>\<open>else\<close> of the test of \<^verbatim>\<open>input_def.depends_on\<close>, so an input that has an upstream
  producer and sources has its sources listed too.
\<close>

theorem dependent_input_sources_counterexample:
  "depends_on \<lparr>input_name = ''x'', depends_on = Some ''A'',
      sources = [\<lparr>source_type = ''CSV'', source_argument_def_dict = [(''path'', ''Path'')]\<rparr>]\<rparr>
     = Some ''A''
   \<and> print_input
     \<lparr>input_name = ''x'', depends_on = Some ''A'',
      sources = [\<lparr>source_type = ''CSV'', source_argument_def_dict = [(''path'', ''Path'')]\<rparr>]\<rparr> []
   = [''            Name: x (depends on A)'', ''                Sources:'',
      ''                    CSV(path: Path)'']"
  by (simp add: print_input_def Let_def indent_times format_argument_dict_def)

text \<open>
  Claim C6, amended. An input with an upstream producer is printed as
  \<^verbatim>\<open>Name: <name> (depends on <producer>)\<close>, an input without one as \<^verbatim>\<open>Name: <name>\<close>;
  then every input whose sequence of sources is not empty, with or without a producer,
  has the line \<^verbatim>\<open>Sources:\<close> and one line per source,
  \<^verbatim>\<open><sourceType>(<argName>: <argType>, ...)\<close>, the sources and the arguments in their
  declared order.
\<close>

theorem print_input_lines:
  "print_input i out =
     out @ [case depends_on i of
              Some producer \<Rightarrow>
                ''            Name: '' @ input_name i @ '' (depends on '' @ producer @ '')''
            | None \<Rightarrow> ''            Name: '' @ input_name i]
         @ (if sources i = [] then []
            else ''                Sources:'' #
                 map (\<lambda>s. ''                    '' @ source_type s @ ''(''
                            @ join '', '' (map (\<lambda>(n, t). n @ '': '' @ t) (source_argument_def_dict s))
                            @ '')'')
                   (sources i))"
  by (simp add: print_input_def Let_def print_sources_eq indent_times format_argument_dict_def
      split: option.splits)

theorem print_input_lines_witness:
  "print_input
     \<lparr>input_name = ''x'', depends_on = None,
      sources = [\<lparr>source_type = ''CSV'',
                  source_argument_def_dict = [(''path'', ''Path''), (''sep'', ''String'')]\<rparr>]\<rparr> []
   = [''            Name: x'', ''                Sources:'',
      ''                    CSV(path: Path, sep: String)'']"
  using print_input_lines
    [of "\<lparr>input_name = ''x'', depends_on = None,
      sources = [\<lparr>source_type = ''CSV'',
                  source_argument_def_dict = [(''path'', ''Path''), (''sep'', ''String'')]\<rparr>]\<rparr>" "[]"]
  by simp

section \<open>The list command in closed form\<close>

lemma echo_solids_eq: "echo_solids ss out = out @ map (\<lambda>s. ''    '' @ solid_name s) ss"
  by (induction ss arbitrary: out) simp_all

lemma list_pipeline_eq:
  "list_pipeline tw p out =
     out @ [''Pipeline: '' @ pipeline_name p]
         @ (case description p of
              Some d \<Rightarrow> if d \<noteq> [] then [''Description:'', format_description tw d] else []
            | None \<Rightarrow> [])
         @ [''Solids: (Execution Order)'']
         @ map (\<lambda>s. ''    '' @ solid_name s) (topological_solids p)
         @ [''*************'']"
  by (simp add: list_pipeline_def Let_def echo_solids_eq split: option.splits)

lemma list_command_eq:
  "list_command tw ps out = out @ concat (map (\<lambda>p. list_pipeline tw p []) ps)"
proof (induction ps arbitrary: out)
  case Nil
  show ?case by simp
next
  case (Cons p ps)
  show ?case
    using Cons.IH [of "list_pipeline tw p out"] list_pipeline_eq [of tw p out]
      list_pipeline_eq [of tw p "[]"]
    by simp
qed

section \<open>The list command and the summary of a pipeline\<close>

text \<open>
  Claim C5, as stated, fails. Two places print a summary. \<^verbatim>\<open>print_pipeline\<close> with
  \<^verbatim>\<open>full=False\<close> prints the header line, with the description, and no solid name.
  \<^verbatim>\<open>list_command\<close> prints the solid names between two more lines, and walks
  \<^verbatim>\<open>pipeline.solid_graph.topological_solids\<close>, while the full output walks
  \<^verbatim>\<open>pipeline.solids\<close>: for two independent solids given as B, A and sorted as A, B, the
  list shows A, B and the full output B, A.
\<close>

theorem summary_order_counterexample:
  "print_pipeline
     \<lparr>pipeline_name = ''P'', description = None,
      solids = [\<lparr>solid_name = ''B'', inputs = [], output_materializations = []\<rparr>,
                \<lparr>solid_name = ''A'', inputs = [], output_materializations = []\<rparr>],
      topological_solids = [\<lparr>solid_name = ''A'', inputs = [], output_materializations = []\<rparr>,
                \<lparr>solid_name = ''B'', inputs = [], output_materializations = []\<rparr>]\<rparr> False []
   = [''Pipeline: P Description: None'']
   \<and> list_command \<lparr>dedent = (\<lambda>s. s), wrapper_fill = (\<lambda>i j s. i @ s)\<rparr>
     [\<lparr>pipeline_name = ''P'', description = None,
      solids = [\<lparr>solid_name = ''B'', inputs = [], output_materializations = []\<rparr>,
                \<lparr>solid_name = ''A'', inputs = [], output_materializations = []\<rparr>],
      topological_solids = [\<lparr>solid_name = ''A'', inputs = [], output_materializations = []\<rparr>,
                \<lparr>solid_name = ''B'', inputs = [], output_materializations = []\<rparr>]\<rparr>] []
   = [''Pipeline: P'', ''Solids: (Execution Order)'', ''    A'', ''    B'', ''*************'']
   \<and> print_pipeline
     \<lparr>pipeline_name = ''P'', description = None,
      solids = [\<lparr>solid_name = ''B'', inputs = [], output_materializations = []\<rparr>,
                \<lparr>solid_name = ''A'', inputs = [], output_materializations = []\<rparr>],
      topological_solids = [\<lparr>solid_name = ''A'', inputs = [], output_materializations = []\<rparr>,
                \<lparr>solid_name = ''B'', inputs = [], output_materializations = []\<rparr>]\<rparr> True []
   = [''Pipeline: P Description: None'',
      ''    Solid: B'', ''        Inputs:'', ''        Output:'', ''            Materializations:'',
      ''    Solid: A'', ''        Inputs:'', ''        Output:'', ''            Materializations:'']"
  by (simp add: print_pipeline_def print_solid_def list_pipeline_def Let_def indent_times)

text \<open>
  Claim C5, amended. \<^verbatim>\<open>list_command\<close> prints for each pipeline, in turn, the line
  \<^verbatim>\<open>Pipeline: <name>\<close>, the line \<^verbatim>\<open>Description:\<close> and the formatted description when
  the description is a non-empty string, the line \<^verbatim>\<open>Solids: (Execution Order)\<close>, one line
  per solid of \<^verbatim>\<open>topological_solids\<close> in that order, the name after four spaces, and a
  line of stars. \<^verbatim>\<open>print_pipeline\<close> with \<^verbatim>\<open>full=False\<close> prints the header line only.
  When \<^verbatim>\<open>topological_solids\<close> and \<^verbatim>\<open>pipeline.solids\<close> name the same solids in the same
  order, the solids of the full output come in the order of the list.
\<close>

theorem list_command_lines:
  "list_command tw ps out = out @ concat (map (\<lambda>p. list_pipeline tw p []) ps)
   \<and> list_pipeline tw p out =
     out @ [''Pipeline: '' @ pipeline_name p]
         @ (case description p of
              Some d \<Rightarrow> if d \<noteq> [] then [''Description:'', format_description tw d] else []
            | None \<Rightarrow> [])
         @ [''Solids: (Execution Order)'']
         @ map (\<lambda>s. ''    '' @ solid_name s) (topological_solids p)
         @ [''*************'']
   \<and> print_pipeline p False out =
       out @ [''Pipeline: '' @ pipeline_name p @ '' Description: '' @ format_opt (description p)]
   \<and> (map solid_name (topological_solids p) = map solid_name (solids p) \<longrightarrow>
        filter is_solid_line (print_pipeline p True []) =
          map (\<lambda>s. ''    Solid: '' @ solid_name s) (topological_solids p))"
proof (intro conjI impI)
  show "list_command tw ps out = out @ concat (map (\<lambda>p. list_pipeline tw p []) ps)"
    by (rule list_command_eq)
  show "list_pipeline tw p out =
     out @ [''Pipeline: '' @ pipeline_name p]
         @ (case description p of
              Some d \<Rightarrow> if d \<noteq> [] then [''Description:'', format_description tw d] else []
            | None \<Rightarrow> [])
         @ [''Solids: (Execution Order)'']
         @ map (\<lambda>s. ''    '' @ solid_name s) (topological_solids p)
         @ [''*************'']"
    by (rule list_pipeline_eq)
  show "print_pipeline p False out =
       out @ [''Pipeline: '' @ pipeline_name p @ '' Description: '' @ format_opt (description p)]"
    by (simp add: print_pipeline_def)
  assume same: "map solid_name (topological_solids p) = map solid_name (solids p)"
  have "filter is_solid_line (print_pipeline p True []) =
        map (\<lambda>n. ''    Solid: '' @ n) (map solid_name (solids p))"
    by (simp add: print_pipeline_def Let_def print_solids_eq filter_solid_blocks
        is_solid_line_def comp_def)
  also have "\<dots> = map (\<lambda>n. ''    Solid: '' @ n) (map solid_name (topological_solids p))"
    using same by simp
  finally show "filter is_solid_line (print_pipeline p True []) =
          map (\<lambda>s. ''    Solid: '' @ solid_name s) (topological_solids p)"
    by (simp add: comp_def)
qed

text \<open>
  In the examples below a description is one short line without leading blanks:
  \<^verbatim>\<open>dedent\<close> leaves such a text as it is and \<^verbatim>\<open>fill\<close> puts it after the initial
  indent, which is what the wrapper of the examples does.
\<close>

theorem list_command_lines_witness:
  "list_command \<lparr>dedent = (\<lambda>s. s), wrapper_fill = (\<lambda>i j s. i @ s)\<rparr>
     [\<lparr>pipeline_name = ''P'', description = Some ''d'',
       solids = [\<lparr>solid_name = ''A'', inputs = [], output_materializations = []\<rparr>,
                 \<lparr>solid_name = ''B'', inputs = [], output_materializations = []\<rparr>],
       topological_solids = [\<lparr>solid_name = ''A'', inputs = [], output_materializations = []\<rparr>,
                 \<lparr>solid_name = ''B'', inputs = [], output_materializations = []\<rparr>]\<rparr>] []
   = [''Pipeline: P'', ''Description:'', ''    d'', ''Solids: (Execution Order)'',
      ''    A'', ''    B'', ''*************'']
   \<and> filter is_solid_line (print_pipeline
      \<lparr>pipeline_name = ''P'', description = Some ''d'',
       solids = [\<lparr>solid_name = ''A'', inputs = [], output_materializations = []\<rparr>,
                 \<lparr>solid_name = ''B'', inputs = [], output_materializations = []\<rparr>],
       topological_solids = [\<lparr>solid_name = ''A'', inputs = [], output_materializations = []\<rparr>,
                 \<lparr>solid_name = ''B'', inputs = [], output_materializations = []\<rparr>]\<rparr> True [])
   = [''    Solid: A'', ''    Solid: B'']"
proof -
  note inst = list_command_lines
    [of "\<lparr>dedent = (\<lambda>s. s), wrapper_fill = (\<lambda>i j s. i @ s)\<rparr>"
       "[\<lparr>pipeline_name = ''P'', description = Some ''d'',
       solids = [\<lparr>solid_name = ''A'', inputs = [], output_materializations = []\<rparr>,
                 \<lparr>solid_name = ''B'', inputs = [], output_materializations = []\<rparr>],
       topological_solids = [\<lparr>solid_name = ''A'', inputs = [], output_materializations = []\<rparr>,
                 \<lparr>solid_name = ''B'', inputs = [], output_materializations = []\<rparr>]\<rparr>]" "[]"
       "\<lparr>pipeline_name = ''P'', description = Some ''d'',
       solids = [\<lparr>solid_name = ''A'', inputs = [], output_materializations = []\<rparr>,
                 \<lparr>solid_name = ''B'', inputs = [], output_materializations = []\<rparr>],
       topological_solids = [\<lparr>solid_name = ''A'', inputs = [], output_materializations = []\<rparr>,
                 \<lparr>solid_name = ''B'', inputs = [], output_materializations = []\<rparr>]\<rparr>"]
  from inst have a: "list_command \<lparr>dedent = (\<lambda>s. s), wrapper_fill = (\<lambda>i j s. i @ s)\<rparr>
     [\<lparr>pipeline_name = ''P'', description = Some ''d'',
       solids = [\<lparr>solid_name = ''A'', inputs = [], output_materializations = []\<rparr>,
                 \<lparr>solid_name = ''B'', inputs = [], output_materializations = []\<rparr>],
       topological_solids = [\<lparr>solid_name = ''A'', inputs = [], output_materializations = []\<rparr>,
                 \<lparr>solid_name = ''B'', inputs = [], output_materializations = []\<rparr>]\<rparr>] []
   = [''Pipeline: P'', ''Description:'', ''    d'', ''Solids: (Execution Order)'',
      ''    A'', ''    B'', ''*************'']"
    by (simp add: format_description_def Let_def indent_times)
  from inst [THEN conjunct2, THEN conjunct2, THEN conjunct2] have b: "filter is_solid_line (print_pipeline
      \<lparr>pipeline_name = ''P'', description = Some ''d'',
       solids = [\<lparr>solid_name = ''A'', inputs = [], output_materializations = []\<rparr>,
                 \<lparr>solid_name = ''B'', inputs = [], output_materializations = []\<rparr>],
       topological_solids = [\<lparr>solid_name = ''A'', inputs = [], output_materializations = []\<rparr>,
                 \<lparr>solid_name = ''B'', inputs = [], output_materializations = []\<rparr>]\<rparr> True [])
   = [''    Solid: A'', ''    Solid: B'']"
    by simp
  from a b show ?thesis by simp
qed

section \<open>The header and the description\<close>

text \<open>
  Claim C7, as stated, fails for the topology printer: \<^verbatim>\<open>print_pipeline\<close> puts the
  description on the header line as it is, never through \<^verbatim>\<open>format_description\<close>, and
  prints the part \<^verbatim>\<open>Description:\<close> also for a pipeline that has no description.
\<close>

theorem print_pipeline_header_counterexample:
  "print_pipeline
     \<lparr>pipeline_name = ''P'', description = None, solids = [], topological_solids = []\<rparr> True []
   = [''Pipeline: P Description: None'']
   \<and> print_pipeline
     \<lparr>pipeline_name = ''P'', description = Some ''loads the data'', solids = [],
      topological_solids = []\<rparr> True []
   = [''Pipeline: P Description: loads the data'']"
  by (simp add: print_pipeline_def)

text \<open>
  Claim C7, amended. For a pipeline with a description, the header of
  \<^verbatim>\<open>print_pipeline\<close> is the one line \<^verbatim>\<open>Pipeline: <name> Description: <description>\<close>,
  the description neither wrapped nor indented. The description filled by the text wrapper
  with an indent of four spaces, after dedenting, and printed only when it is a non-empty
  string, is what \<^verbatim>\<open>list_command\<close> prints, after the lines \<^verbatim>\<open>Pipeline: <name>\<close> and
  \<^verbatim>\<open>Description:\<close>.
\<close>

theorem header_description:
  "(description p = Some d \<longrightarrow>
      print_pipeline p full out =
        out @ [''Pipeline: '' @ pipeline_name p @ '' Description: '' @ d]
            @ (if full then concat (map (\<lambda>s. print_solid s []) (solids p)) else []))
   \<and> list_pipeline tw p out =
       out @ [''Pipeline: '' @ pipeline_name p]
           @ (case description p of
                Some d \<Rightarrow>
                  if d \<noteq> [] then [''Description:'', wrapper_fill tw ''    '' ''    '' (dedent tw d)]
                  else []
              | None \<Rightarrow> [])
           @ [''Solids: (Execution Order)'']
           @ echo_solids (topological_solids p) []
           @ [''*************'']"
  by (simp add: print_pipeline_def Let_def print_solids_eq list_pipeline_eq echo_solids_eq
      format_description_def indent_times split: option.splits)

theorem header_description_witness:
  "print_pipeline
     \<lparr>pipeline_name = ''P'', description = Some ''loads the data'', solids = [],
      topological_solids = []\<rparr> False []
   = [''Pipeline: P Description: loads the data'']
   \<and> list_pipeline \<lparr>dedent = (\<lambda>s. s), wrapper_fill = (\<lambda>i j s. i @ s)\<rparr>
     \<lparr>pipeline_name = ''P'', description = Some ''loads the data'', solids = [],
      topological_solids = []\<rparr> []
   = [''Pipeline: P'', ''Description:'', ''    loads the data'', ''Solids: (Execution Order)'',
      ''*************'']"
  using header_description
    [of "\<lparr>pipeline_name = ''P'', description = Some ''loads the data'', solids = [],
      topological_solids = []\<rparr>" "''loads the data''" False "[]"
      "\<lparr>dedent = (\<lambda>s. s), wrapper_fill = (\<lambda>i j s. i @ s)\<rparr>"]
  by simp

section \<open>The metrics reporter in closed form\<close>

lemma print_metric_list_eq:
  "print_metric_list ind ms out = out @ map (\<lambda>m. ind @ metric_name m @ '': '' @ metric_value m) ms"
  by (induction ms arbitrary: out) simp_all

lemma print_input_metrics_append:
  "print_input_metrics r i out = out @ print_input_metrics r i []"
  by (simp add: print_input_metrics_def Let_def print_metric_list_eq)

lemma print_inputs_metrics_eq:
  "print_inputs_metrics r is out = out @ concat (map (\<lambda>i. print_input_metrics r i []) is)"
proof (induction "is" arbitrary: out)
  case Nil
  show ?case by simp
next
  case (Cons i "is")
  show ?case
    using Cons.IH [of "print_input_metrics r i out"] print_input_metrics_append [of r i out]
    by simp
qed

lemma print_result_metrics_append:
  "print_result_metrics r out = out @ print_result_metrics r []"
  using print_inputs_metrics_eq [of r "inputs (solid r)" "out @ [''Metrics for '' @ result_name r]"]
    print_inputs_metrics_eq [of r "inputs (solid r)" "[''Metrics for '' @ result_name r]"]
  by (simp add: print_result_metrics_def Let_def print_metric_list_eq)

lemma print_metrics_to_console_eq:
  "print_metrics_to_console rs out = out @ concat (map (\<lambda>r. print_result_metrics r []) rs)"
proof (induction rs arbitrary: out)
  case Nil
  show ?case by simp
next
  case (Cons r rs)
  show ?case
    using Cons.IH [of "print_result_metrics r out"] print_result_metrics_append [of r out]
    by simp
qed

text \<open>
  Claim C9. For a result the reporter prints the line \<^verbatim>\<open>Metrics for <name>\<close>; then, for
  each input of the result's solid in declared order, if the covering query for the solid
  and the input returns a metric, the line \<^verbatim>\<open>Input <inputName>\<close> after four spaces and
  one line \<^verbatim>\<open><metricName>: <value>\<close> after eight spaces per returned metric, in the order
  returned; then one such line after four spaces per metric that the matching query for the
  solid returns. The results are reported one after the other, in their order. Over a
  context that keeps its metrics in a store, both queries return the selected metrics in
  store order.
\<close>

theorem metrics_report_lines:
  "print_result_metrics r out =
     out @ [''Metrics for '' @ result_name r]
         @ concat (map (\<lambda>i.
              let ms = metrics_covering_context (result_context r)
                         [(''solid'', result_name r), (''input'', input_name i)]
              in if ms = [] then []
                 else (''    Input '' @ input_name i) #
                      map (\<lambda>m. ''        '' @ metric_name m @ '': '' @ metric_value m) ms)
            (inputs (solid r)))
         @ map (\<lambda>m. ''    '' @ metric_name m @ '': '' @ metric_value m)
             (metrics_matching_context (result_context r) [(''solid'', result_name r)])
   \<and> print_metrics_to_console rs out = out @ concat (map (\<lambda>r. print_result_metrics r []) rs)
   \<and> metrics_covering_context (store_context store) q =
       filter (\<lambda>m. covers (context_tags m) q) store
   \<and> metrics_matching_context (store_context store) q =
       filter (\<lambda>m. matches (context_tags m) q) store"
proof (intro conjI)
  have body: "print_input_metrics r i [] =
      (let ms = metrics_covering_context (result_context r)
                         [(''solid'', result_name r), (''input'', input_name i)]
              in if ms = [] then []
                 else (''    Input '' @ input_name i) #
                      map (\<lambda>m. ''        '' @ metric_name m @ '': '' @ metric_value m) ms)" for i
    by (simp add: print_input_metrics_def Let_def print_metric_list_eq indent_times)
  show "print_result_metrics r out =
     out @ [''Metrics for '' @ result_name r]
         @ concat (map (\<lambda>i.
              let ms = metrics_covering_context (result_context r)
                         [(''solid'', result_name r), (''input'', input_name i)]
              in if ms = [] then []
                 else (''    Input '' @ input_name i) #
                      map (\<lambda>m. ''        '' @ metric_name m @ '': '' @ metric_value m) ms)
            (inputs (solid r)))
         @ map (\<lambda>m. ''    '' @ metric_name m @ '': '' @ metric_value m)
             (metrics_matching_context (result_context r) [(''solid'', result_name r)])"
    using print_inputs_metrics_eq [of r "inputs (solid r)" "out @ [''Metrics for '' @ result_name r]"]
    by (simp add: print_result_metrics_def Let_def print_metric_list_eq indent_times body)
  show "print_metrics_to_console rs out = out @ concat (map (\<lambda>r. print_result_metrics r []) rs)"
    by (rule print_metrics_to_console_eq)
  show "metrics_covering_context (store_context store) q =
       filter (\<lambda>m. covers (context_tags m) q) store"
    by (simp add: store_context_def)
  show "metrics_matching_context (store_context store) q =
       filter (\<lambda>m. matches (context_tags m) q) store"
    by (simp add: store_context_def)
qed

theorem metrics_report_lines_witness:
  "print_result_metrics
     \<lparr>result_name = ''A'', success = True, reason = OTHER_REASON, user_exception = ''none'',
      failed_expectation_results = [],
      result_context = store_context
        [\<lparr>metric_name = ''rows'', metric_value = ''42'',
          context_tags = [(''solid'', ''A''), (''input'', ''x'')]\<rparr>,
         \<lparr>metric_name = ''time'', metric_value = ''1.2'', context_tags = [(''solid'', ''A'')]\<rparr>],
      solid = \<lparr>solid_name = ''A'',
               inputs = [\<lparr>input_name = ''x'', depends_on = None, sources = []\<rparr>,
                         \<lparr>input_name = ''y'', depends_on = None, sources = []\<rparr>],
               output_materializations = []\<rparr>\<rparr> []
   = [''Metrics for A'', ''    Input x'', ''        rows: 42'', ''    time: 1.2'']"
  using metrics_report_lines
    [of "\<lparr>result_name = ''A'', success = True, reason = OTHER_REASON, user_exception = ''none'',
      failed_expectation_results = [],
      result_context = store_context
        [\<lparr>metric_name = ''rows'', metric_value = ''42'',
          context_tags = [(''solid'', ''A''), (''input'', ''x'')]\<rparr>,
         \<lparr>metric_name = ''time'', metric_value = ''1.2'', context_tags = [(''solid'', ''A'')]\<rparr>],
      solid = \<lparr>solid_name = ''A'',
               inputs = [\<lparr>input_name = ''x'', depends_on = None, sources = []\<rparr>,
                         \<lparr>input_name = ''y'', depends_on = None, sources = []\<rparr>],
               output_materializations = []\<rparr>\<rparr>" "[]", THEN conjunct1]
  by (simp add: store_context_def matches_def covers_def)

section \<open>The loop of the consumer\<close>

lemma log_errors_eq: "log_errors es n lg = lg @ map (\<lambda>e. (message e, n)) es"
  by (induction es arbitrary: lg) simp_all

lemma consume_successes:
  "\<forall>r \<in> set pre. success r \<Longrightarrow>
     consume (pre @ rest) results lg = consume rest (results @ pre) lg"
  by (induction pre arbitrary: results) simp_all

lemma split_at:
  assumes "k < length xs"
  shows "xs = take k xs @ xs ! k # drop (Suc k) xs"
  using assms by (simp add: id_take_nth_drop)

lemma prefix_successes:
  assumes "k < length xs" and "\<forall>i<k. success (xs ! i)"
  shows "\<forall>r \<in> set (take k xs). success r"
proof
  fix r assume "r \<in> set (take k xs)"
  then obtain i where "i < length (take k xs)" and "take k xs ! i = r"
    by (auto simp: in_set_conv_nth)
  with assms show "success r" by auto
qed

lemma consume_at:
  assumes "k < length xs" and "\<forall>i<k. success (xs ! i)"
  shows "consume xs [] [] = consume (xs ! k # drop (Suc k) xs) (take k xs) []"
proof -
  have "consume (take k xs @ xs ! k # drop (Suc k) xs) [] [] =
        consume (xs ! k # drop (Suc k) xs) ([] @ take k xs) []"
    by (rule consume_successes) (rule prefix_successes [OF assms])
  with split_at [OF assms(1)] show ?thesis by simp
qed

section \<open>The consumer: a stream of successes\<close>

text \<open>
  Claim C4. When every result of the stream is a success, the call returns, the list
  \<^verbatim>\<open>results\<close> is the stream, element for element in the order produced, nothing is
  logged, and what is printed is the report of \<^verbatim>\<open>print_metrics_to_console\<close> over that list.
\<close>

theorem all_successes_completed:
  assumes "\<forall>r \<in> set xs. success r"
  shows "process_results_for_console xs out =
     \<lparr>outcome = Returned, accumulated = xs, logged = [],
      printed = print_metrics_to_console xs out\<rparr>"
  using consume_successes [OF assms, of "[]" "[]" "[]"]
  by (simp add: process_results_for_console_def)

theorem all_successes_completed_witness:
  "process_results_for_console
     [\<lparr>result_name = ''A'', success = True, reason = OTHER_REASON, user_exception = ''none'',
         failed_expectation_results = [], result_context = store_context [],
         solid = \<lparr>solid_name = ''A'', inputs = [], output_materializations = []\<rparr>\<rparr>,
      \<lparr>result_name = ''A'', success = True, reason = OTHER_REASON, user_exception = ''none'',
         failed_expectation_results = [], result_context = store_context [],
         solid = \<lparr>solid_name = ''A'', inputs = [], output_materializations = []\<rparr>\<rparr>] []
   = \<lparr>outcome = Returned,
      accumulated = [\<lparr>result_name = ''A'', success = True, reason = OTHER_REASON, user_exception = ''none'',
         failed_expectation_results = [], result_context = store_context [],
         solid = \<lparr>solid_name = ''A'', inputs = [], output_materializations = []\<rparr>\<rparr>,
      \<lparr>result_name = ''A'', success = True, reason = OTHER_REASON, user_exception = ''none'',
         failed_expectation_results = [], result_context = store_context [],
         solid = \<lparr>solid_name = ''A'', inputs = [], output_materializations = []\<rparr>\<rparr>],
      logged = [], printed = [''Metrics for A'', ''Metrics for A'']\<rparr>"
  using all_successes_completed
    [of "[\<lparr>result_name = ''A'', success = True, reason = OTHER_REASON, user_exception = ''none'',
         failed_expectation_results = [], result_context = store_context [],
         solid = \<lparr>solid_name = ''A'', inputs = [], output_materializations = []\<rparr>\<rparr>,
      \<lparr>result_name = ''A'', success = True, reason = OTHER_REASON, user_exception = ''none'',
         failed_expectation_results = [], result_context = store_context [],
         solid = \<lparr>solid_name = ''A'', inputs = [], output_materializations = []\<rparr>\<rparr>]" "[]"]
  by (simp add: print_result_metrics_def Let_def store_context_def)

section \<open>The consumer: a failed expectation\<close>

text \<open>
  Claim C1, as stated, fails: \<^verbatim>\<open>click_context.exit(1)\<close> leaves the loop before
  \<^verbatim>\<open>results.append(result)\<close> and before \<^verbatim>\<open>print_metrics_to_console\<close>. For a stream of
  one result with failed expectations (\<open>k = 0\<close>) the list holds no result, not one, and
  no report is printed.
\<close>

theorem expectation_failure_report_counterexample:
  "length (accumulated (process_results_for_console
     [\<lparr>result_name = ''B'', success = False, reason = EXPECTATION_FAILURE,
         user_exception = ''none'',
         failed_expectation_results = [\<lparr>message = ''no nulls''\<rparr>, \<lparr>message = ''positive''\<rparr>],
         result_context = store_context [],
         solid = \<lparr>solid_name = ''B'', inputs = [], output_materializations = []\<rparr>\<rparr>] [])) \<noteq> 0 + 1
   \<and> printed (process_results_for_console
     [\<lparr>result_name = ''B'', success = False, reason = EXPECTATION_FAILURE,
         user_exception = ''none'',
         failed_expectation_results = [\<lparr>message = ''no nulls''\<rparr>, \<lparr>message = ''positive''\<rparr>],
         result_context = store_context [],
         solid = \<lparr>solid_name = ''B'', inputs = [], output_materializations = []\<rparr>\<rparr>] [])
     \<noteq> print_metrics_to_console
     [\<lparr>result_name = ''B'', success = False, reason = EXPECTATION_FAILURE,
         user_exception = ''none'',
         failed_expectation_results = [\<lparr>message = ''no nulls''\<rparr>, \<lparr>message = ''positive''\<rparr>],
         result_context = store_context [],
         solid = \<lparr>solid_name = ''B'', inputs = [], output_materializations = []\<rparr>\<rparr>] []"
  by (simp add: process_results_for_console_def print_result_metrics_def Let_def
      store_context_def)

text \<open>
  Claim C1, amended. When the first \<open>k\<close> results are successes and the result at position
  \<open>k\<close> failed with \<^verbatim>\<open>EXPECTATION_FAILURE\<close>, the consumer logs one error per failed
  expectation of that result, in order, each with the message and the name of the result's
  solid, and ends with exit status 1; the failed result is not appended (the list holds the
  \<open>k\<close> successes) and no report is printed.
\<close>

theorem expectation_failure_exits:
  assumes "k < length xs" and "\<forall>i<k. success (xs ! i)"
    and "\<not> success (xs ! k)" and "reason (xs ! k) = EXPECTATION_FAILURE"
  shows "process_results_for_console xs out =
     \<lparr>outcome = Exited 1, accumulated = take k xs,
      logged = map (\<lambda>e. (message e, solid_name (solid (xs ! k))))
                 (failed_expectation_results (xs ! k)),
      printed = out\<rparr>"
  using consume_at [OF assms(1,2)] assms(3,4)
  by (simp add: process_results_for_console_def log_errors_eq)

theorem expectation_failure_exits_witness:
  "process_results_for_console
     [\<lparr>result_name = ''A'', success = True, reason = OTHER_REASON, user_exception = ''none'',
         failed_expectation_results = [], result_context = store_context [],
         solid = \<lparr>solid_name = ''A'', inputs = [], output_materializations = []\<rparr>\<rparr>,
      \<lparr>result_name = ''B'', success = False, reason = EXPECTATION_FAILURE,
         user_exception = ''none'',
         failed_expectation_results = [\<lparr>message = ''no nulls''\<rparr>, \<lparr>message = ''positive''\<rparr>],
         result_context = store_context [],
         solid = \<lparr>solid_name = ''B'', inputs = [], output_materializations = []\<rparr>\<rparr>,
      \<lparr>result_name = ''A'', success = True, reason = OTHER_REASON, user_exception = ''none'',
         failed_expectation_results = [], result_context = store_context [],
         solid = \<lparr>solid_name = ''A'', inputs = [], output_materializations = []\<rparr>\<rparr>] []
   = \<lparr>outcome = Exited 1,
      accumulated = [\<lparr>result_name = ''A'', success = True, reason = OTHER_REASON, user_exception = ''none'',
         failed_expectation_results = [], result_context = store_context [],
         solid = \<lparr>solid_name = ''A'', inputs = [], output_materializations = []\<rparr>\<rparr>],
      logged = [(''no nulls'', ''B''), (''positive'', ''B'')], printed = []\<rparr>"
  using expectation_failure_exits
    [of 1 "[\<lparr>result_name = ''A'', success = True, reason = OTHER_REASON, user_exception = ''none'',
         failed_expectation_results = [], result_context = store_context [],
         solid = \<lparr>solid_name = ''A'', inputs = [], output_materializations = []\<rparr>\<rparr>,
      \<lparr>result_name = ''B'', success = False, reason = EXPECTATION_FAILURE,
         user_exception = ''none'',
         failed_expectation_results = [\<lparr>message = ''no nulls''\<rparr>, \<lparr>message = ''positive''\<rparr>],
         result_context = store_context [],
         solid = \<lparr>solid_name = ''B'', inputs = [], output_materializations = []\<rparr>\<rparr>,
      \<lparr>result_name = ''A'', success = True, reason = OTHER_REASON, user_exception = ''none'',
         failed_expectation_results = [], result_context = store_context [],
         solid = \<lparr>solid_name = ''A'', inputs = [], output_materializations = []\<rparr>\<rparr>]" "[]"]
  by simp

section \<open>The consumer: an error of the user's code\<close>

text \<open>
  Claim C3, as stated, fails: the loop ends at the first failure it meets. When a failed
  expectation comes before the user code error at position \<open>k = 1\<close>, the call ends with
  exit status 1 and the user's exception is not raised.
\<close>

theorem user_code_error_position_counterexample:
  "\<not> success ([\<lparr>result_name = ''B'', success = False, reason = EXPECTATION_FAILURE,
         user_exception = ''none'',
         failed_expectation_results = [\<lparr>message = ''no nulls''\<rparr>, \<lparr>message = ''positive''\<rparr>],
         result_context = store_context [],
         solid = \<lparr>solid_name = ''B'', inputs = [], output_materializations = []\<rparr>\<rparr>,
      \<lparr>result_name = ''C'', success = False, reason = USER_CODE_ERROR,
         user_exception = ''boom'', failed_expectation_results = [],
         result_context = store_context [],
         solid = \<lparr>solid_name = ''C'', inputs = [], output_materializations = []\<rparr>\<rparr>] ! 1)
   \<and> reason ([\<lparr>result_name = ''B'', success = False, reason = EXPECTATION_FAILURE,
         user_exception = ''none'',
         failed_expectation_results = [\<lparr>message = ''no nulls''\<rparr>, \<lparr>message = ''positive''\<rparr>],
         result_context = store_context [],
         solid = \<lparr>solid_name = ''B'', inputs = [], output_materializations = []\<rparr>\<rparr>,
      \<lparr>result_name = ''C'', success = False, reason = USER_CODE_ERROR,
         user_exception = ''boom'', failed_expectation_results = [],
         result_context = store_context [],
         solid = \<lparr>solid_name = ''C'', inputs = [], output_materializations = []\<rparr>\<rparr>] ! 1) = USER_CODE_ERROR
   \<and> outcome (process_results_for_console
     [\<lparr>result_name = ''B'', success = False, reason = EXPECTATION_FAILURE,
         user_exception = ''none'',
         failed_expectation_results = [\<lparr>message = ''no nulls''\<rparr>, \<lparr>message = ''positive''\<rparr>],
         result_context = store_context [],
         solid = \<lparr>solid_name = ''B'', inputs = [], output_materializations = []\<rparr>\<rparr>,
      \<lparr>result_name = ''C'', success = False, reason = USER_CODE_ERROR,
         user_exception = ''boom'', failed_expectation_results = [],
         result_context = store_context [],
         solid = \<lparr>solid_name = ''C'', inputs = [], output_materializations = []\<rparr>\<rparr>] []) \<noteq> Raised ''boom''
   \<and> outcome (process_results_for_console
     [\<lparr>result_name = ''B'', success = False, reason = EXPECTATION_FAILURE,
         user_exception = ''none'',
         failed_expectation_results = [\<lparr>message = ''no nulls''\<rparr>, \<lparr>message = ''positive''\<rparr>],
         result_context = store_context [],
         solid = \<lparr>solid_name = ''B'', inputs = [], output_materializations = []\<rparr>\<rparr>,
      \<lparr>result_name = ''C'', success = False, reason = USER_CODE_ERROR,
         user_exception = ''boom'', failed_expectation_results = [],
         result_context = store_context [],
         solid = \<lparr>solid_name = ''C'', inputs = [], output_materializations = []\<rparr>\<rparr>] []) = Exited 1"
  by (simp add: process_results_for_console_def)

text \<open>
  Claim C3, amended. When the first \<open>k\<close> results are successes and the result at position
  \<open>k\<close> failed with \<^verbatim>\<open>USER_CODE_ERROR\<close>, the consumer raises the exception of that
  result; the failed result is not appended, nothing is printed (the reporter is not
  called), and nothing is logged, whatever comes after position \<open>k\<close>.
\<close>

theorem user_code_error_raises:
  assumes "k < length xs" and "\<forall>i<k. success (xs ! i)"
    and "\<not> success (xs ! k)" and "reason (xs ! k) = USER_CODE_ERROR"
  shows "process_results_for_console xs out =
     \<lparr>outcome = Raised (user_exception (xs ! k)), accumulated = take k xs,
      logged = [], printed = out\<rparr>"
  using consume_at [OF assms(1,2)] assms(3,4)
  by (simp add: process_results_for_console_def)

theorem user_code_error_raises_witness:
  "process_results_for_console
     [\<lparr>result_name = ''A'', success = True, reason = OTHER_REASON, user_exception = ''none'',
         failed_expectation_results = [], result_context = store_context [],
         solid = \<lparr>solid_name = ''A'', inputs = [], output_materializations = []\<rparr>\<rparr>,
      \<lparr>result_name = ''C'', success = False, reason = USER_CODE_ERROR,
         user_exception = ''boom'', failed_expectation_results = [],
         result_context = store_context [],
         solid = \<lparr>solid_name = ''C'', inputs = [], output_materializations = []\<rparr>\<rparr>,
      \<lparr>result_name = ''B'', success = False, reason = EXPECTATION_FAILURE,
         user_exception = ''none'',
         failed_expectation_results = [\<lparr>message = ''no nulls''\<rparr>, \<lparr>message = ''positive''\<rparr>],
         result_context = store_context [],
         solid = \<lparr>solid_name = ''B'', inputs = [], output_materializations = []\<rparr>\<rparr>] []
   = \<lparr>outcome = Raised ''boom'',
      accumulated = [\<lparr>result_name = ''A'', success = True, reason = OTHER_REASON, user_exception = ''none'',
         failed_expectation_results = [], result_context = store_context [],
         solid = \<lparr>solid_name = ''A'', inputs = [], output_materializations = []\<rparr>\<rparr>],
      logged = [], printed = []\<rparr>"
  using user_code_error_raises
    [of 1 "[\<lparr>result_name = ''A'', success = True, reason = OTHER_REASON, user_exception = ''none'',
         failed_expectation_results = [], result_context = store_context [],
         solid = \<lparr>solid_name = ''A'', inputs = [], output_materializations = []\<rparr>\<rparr>,
      \<lparr>result_name = ''C'', success = False, reason = USER_CODE_ERROR,
         user_exception = ''boom'', failed_expectation_results = [],
         result_context = store_context [],
         solid = \<lparr>solid_name = ''C'', inputs = [], output_materializations = []\<rparr>\<rparr>,
      \<lparr>result_name = ''B'', success = False, reason = EXPECTATION_FAILURE,
         user_exception = ''none'',
         failed_expectation_results = [\<lparr>message = ''no nulls''\<rparr>, \<lparr>message = ''positive''\<rparr>],
         result_context = store_context [],
         solid = \<lparr>solid_name = ''B'', inputs = [], output_materializations = []\<rparr>\<rparr>]" "[]"]
  by simp

section \<open>The consumer: another failure reason\<close>

text \<open>
  Claim C2 does not hold of the code. A result that failed with a reason other than
  \<^verbatim>\<open>USER_CODE_ERROR\<close> and \<^verbatim>\<open>EXPECTATION_FAILURE\<close> meets no branch of the
  \<^verbatim>\<open>if\<close>/\<^verbatim>\<open>elif\<close>: it is appended like a success, the loop goes on, and the report
  covers it.
\<close>

theorem other_reason_passes:
  "process_results_for_console
     [\<lparr>result_name = ''D'', success = False, reason = OTHER_REASON,
         user_exception = ''none'', failed_expectation_results = [],
         result_context = store_context [],
         solid = \<lparr>solid_name = ''D'', inputs = [], output_materializations = []\<rparr>\<rparr>,
      \<lparr>result_name = ''A'', success = True, reason = OTHER_REASON, user_exception = ''none'',
         failed_expectation_results = [], result_context = store_context [],
         solid = \<lparr>solid_name = ''A'', inputs = [], output_materializations = []\<rparr>\<rparr>] []
   = \<lparr>outcome = Returned,
      accumulated = [\<lparr>result_name = ''D'', success = False, reason = OTHER_REASON,
         user_exception = ''none'', failed_expectation_results = [],
         result_context = store_context [],
         solid = \<lparr>solid_name = ''D'', inputs = [], output_materializations = []\<rparr>\<rparr>,
      \<lparr>result_name = ''A'', success = True, reason = OTHER_REASON, user_exception = ''none'',
         failed_expectation_results = [], result_context = store_context [],
         solid = \<lparr>solid_name = ''A'', inputs = [], output_materializations = []\<rparr>\<rparr>],
      logged = [], printed = [''Metrics for D'', ''Metrics for A'']\<rparr>"
  by (simp add: process_results_for_console_def print_result_metrics_def Let_def store_context_def)

end
